theory Spec2Isabelle
  imports Main "HOL-Library.AList" "HOL-Library.Extended_Nat" "HOL-Library.Product_Lexorder"
    "HOL-Library.Multiset"
begin

section \<open>Shift vocabulary and the schedule matrix\<close>

text \<open>
  Shift codes are Python integers: 0 = Off, 1 = Morning, 2 = Evening, 3 = Night.
  A cell of the schedule is \<open>Optional[int]\<close>; a row is the list of one employee's
  cells; the matrix \<open>employee_shifts\<close> is a dictionary from employee names to rows,
  kept as an association list in insertion order.
\<close>

type_synonym cell = "int option"
type_synonym row = "cell list"
type_synonym 'n sched = "('n \<times> row) list"

text \<open>\<open>employee_shifts.get(name, [])\<close>.\<close>

definition row_of :: "'n sched \<Rightarrow> 'n \<Rightarrow> row" where
  "row_of employee_shifts name =
     (case map_of employee_shifts name of None \<Rightarrow> [] | Some r \<Rightarrow> r)"

text \<open>The slice \<open>xs[i:j]\<close> for \<open>0 \<le> i \<le> j\<close>.\<close>

definition slice :: "'a list \<Rightarrow> nat \<Rightarrow> nat \<Rightarrow> 'a list" where
  "slice xs i j = take (j - i) (drop i xs)"

section \<open>The legality predicate\<close>

text \<open>
  \<open>is_shift_viable(employee_shifts, name, day, shift, total_days)\<close>. The day is an
  index produced by \<open>range\<close> at every call site, hence a natural number. The
  parameter \<open>total_days\<close> is never read.
\<close>

definition is_shift_viable :: "'n sched \<Rightarrow> 'n \<Rightarrow> nat \<Rightarrow> int option \<Rightarrow> nat \<Rightarrow> bool" where
  "is_shift_viable employee_shifts name day shift total_days =
     (case shift of
        None \<Rightarrow> False
      | Some s \<Rightarrow>
          if s = 0 then True
          else
            let shifts_list = row_of employee_shifts name in
            if day \<ge> length shifts_list then False
            else
              let prev_shift = (if day > 0 then shifts_list ! (day - 1) else None);
                  prev_prev_shift = (if day > 1 then shifts_list ! (day - 2) else None)
              in
                if day \<ge> 2 \<and> prev_prev_shift = Some 3 \<and> prev_shift = Some 3 \<and> s \<noteq> 0
                then False
                else if s = 1 \<and> prev_shift = Some 3 then False
                else if s = 3 \<and> prev_shift = Some 3 \<and> prev_prev_shift = Some 3 then False
                else if s = 1 \<and> day \<ge> 2 \<and> prev_shift = Some 2 \<and> prev_prev_shift = Some 3
                then False
                else if s = 1 \<and> day \<ge> 3
                        \<and> slice shifts_list (day - 3) day = [Some 3, Some 2, Some 2]
                then False
                else if s = 1 \<and> day \<ge> 4
                        \<and> (slice shifts_list (day - 4) day = [Some 3, Some 2, Some 3, Some 2]
                           \<or> slice shifts_list (day - 4) day = [Some 2, Some 3, Some 2, Some 2])
                then False
                else True)"

text \<open>
  The rules of the legality predicate as the specification words them, over one row:
  Off is always viable; otherwise the day must lie inside the row, the two preceding
  days must not both be Night, and Morning is refused after a Night and after the
  histories [Night, Evening], [Night, Evening, Evening],
  [Night, Evening, Night, Evening] and [Evening, Night, Evening, Evening].
\<close>

definition preceded_by :: "row \<Rightarrow> nat \<Rightarrow> row \<Rightarrow> bool" where
  "preceded_by r d p = (length p \<le> d \<and> slice r (d - length p) d = p)"

definition viable_by_rules :: "row \<Rightarrow> nat \<Rightarrow> int \<Rightarrow> bool" where
  "viable_by_rules r d c =
     (if c = 0 then True
      else if length r \<le> d then False
      else if preceded_by r d [Some 3, Some 3] then False
      else if c = 1 \<and> preceded_by r d [Some 3] then False
      else if c = 1 \<and> (preceded_by r d [Some 3, Some 2]
                     \<or> preceded_by r d [Some 3, Some 2, Some 2]
                     \<or> preceded_by r d [Some 3, Some 2, Some 3, Some 2]
                     \<or> preceded_by r d [Some 2, Some 3, Some 2, Some 2])
      then False
      else True)"

section \<open>Dictionaries, tallies and the random source\<close>

text \<open>
  \<open>shift_counts\<close> maps every employee to a dictionary with the four keys 0, 1, 2, 3.
  Reading or updating it under a key it does not hold (an unset cell in particular)
  raises \<open>KeyError\<close>. \<open>list.remove\<close> raises \<open>ValueError\<close> when the element is absent;
  the roster check of the generator raises its own \<open>ValueError\<close>.
\<close>

datatype gen_error = InsufficientRoster | KeyError | RemoveAbsent

type_synonym 'n tally = "('n \<times> (int \<times> int) list) list"

text \<open>The keys of a dictionary built by a comprehension over a list, in insertion order.\<close>

definition dict_keys :: "'a list \<Rightarrow> 'a list" where
  "dict_keys xs = rev (remdups (rev xs))"

text \<open>
  Every row is created with \<open>total_days\<close> cells and keeps that length, and every day
  index used by the generator lies below \<open>total_days\<close>; \<open>cell_at\<close> is the read
  \<open>employee_shifts[name][d]\<close> for such an index.
\<close>

definition cell_at :: "'n sched \<Rightarrow> 'n \<Rightarrow> nat \<Rightarrow> cell" where
  "cell_at S name d = (let r = row_of S name in if d < length r then r ! d else None)"

definition set_cell :: "'n sched \<Rightarrow> 'n \<Rightarrow> nat \<Rightarrow> cell \<Rightarrow> 'n sched" where
  "set_cell S name d v = AList.map_entry name (\<lambda>r. r[d := v]) S"

text \<open>\<open>d.get(k, dflt)\<close> on a dictionary kept as an association list.\<close>

definition dict_get :: "('k \<times> 'v) list \<Rightarrow> 'k \<Rightarrow> 'v \<Rightarrow> 'v" where
  "dict_get d k dflt = (case map_of d k of None \<Rightarrow> dflt | Some v \<Rightarrow> v)"

text \<open>\<open>shift_counts[name][k]\<close> for one of the four keys, and \<open>shift_counts[name].get(k, 0)\<close>.\<close>

definition count_of :: "'n tally \<Rightarrow> 'n \<Rightarrow> int \<Rightarrow> int" where
  "count_of C name k = dict_get (dict_get C name []) k 0"

text \<open>\<open>shift_counts[name][k] += delta\<close> for a literal key.\<close>

definition add_count :: "'n tally \<Rightarrow> 'n \<Rightarrow> int \<Rightarrow> int \<Rightarrow> 'n tally" where
  "add_count C name k delta = AList.map_entry name (AList.map_entry k (\<lambda>v. v + delta)) C"

text \<open>\<open>k in shift_counts[name]\<close> for a cell value.\<close>

definition has_key :: "'n tally \<Rightarrow> 'n \<Rightarrow> cell \<Rightarrow> bool" where
  "has_key C name key =
     (case key of None \<Rightarrow> False | Some k \<Rightarrow> map_of (dict_get C name []) k \<noteq> None)"

text \<open>\<open>shift_counts[name][key] += delta\<close> where the key is a cell value.\<close>

definition add_count_cell :: "'n tally \<Rightarrow> 'n \<Rightarrow> cell \<Rightarrow> int \<Rightarrow> gen_error + 'n tally" where
  "add_count_cell C name key delta =
     (case key of
        None \<Rightarrow> Inl KeyError
      | Some k \<Rightarrow> if has_key C name key then Inr (add_count C name k delta) else Inl KeyError)"

text \<open>\<open>shift_counts[name][k] = shift_counts[name].get(k, 0) + 1\<close>.\<close>

definition incr_get :: "'n tally \<Rightarrow> 'n \<Rightarrow> int \<Rightarrow> 'n tally" where
  "incr_get C name k = AList.map_entry name (\<lambda>d. AList.update k (dict_get d k 0 + 1) d) C"

text \<open>\<open>{name: {code: 0 for code in SHIFT_NAMES.keys()} for name in employee_names}\<close>.\<close>

definition zero_tally :: "'n list \<Rightarrow> 'n tally" where
  "zero_tally employee_names =
     map (\<lambda>name. (name, [(1, 0), (2, 0), (3, 0), (0, 0)])) (dict_keys employee_names)"

text \<open>
  The number of roster entries holding code \<open>s\<close> on a day:
  \<open>sum(1 for emp in employee_names if employee_shifts[emp][day] == s)\<close>.
\<close>

definition count_day :: "'n sched \<Rightarrow> 'n list \<Rightarrow> nat \<Rightarrow> int \<Rightarrow> int" where
  "count_day S employee_names day s =
     int (length (filter (\<lambda>emp. cell_at S emp day = Some s) employee_names))"

text \<open>
  The random source is an injected sequence of draws (an exhausted sequence yields 0).
  \<open>random.choice\<close> picks the element a draw points at; \<open>random.shuffle\<close> builds the
  permutation by repeated choice, so every order can be produced.
\<close>

definition draw :: "nat list \<Rightarrow> nat \<times> nat list" where
  "draw rs = (case rs of [] \<Rightarrow> (0, []) | r # rest \<Rightarrow> (r, rest))"

definition choice :: "nat list \<Rightarrow> 'a \<Rightarrow> 'a list \<Rightarrow> 'a \<times> nat list" where
  "choice rs x xs = (let (r, rest) = draw rs in ((x # xs) ! (r mod Suc (length xs)), rest))"

text \<open>The list without its element at position \<open>i\<close>.\<close>

definition without_nth :: "nat \<Rightarrow> 'a list \<Rightarrow> 'a list" where
  "without_nth i xs = take i xs @ drop (Suc i) xs"

fun shuffle_fuel :: "nat \<Rightarrow> nat list \<Rightarrow> 'a list \<Rightarrow> 'a list \<times> nat list" where
  "shuffle_fuel 0 rs xs = (xs, rs)"
| "shuffle_fuel (Suc n) rs xs =
     (case xs of
        [] \<Rightarrow> ([], rs)
      | y # ys \<Rightarrow>
          let (r, rest) = draw rs;
              i = r mod length xs;
              (tl', rs') = shuffle_fuel n rest (without_nth i xs)
          in ((xs ! i) # tl', rs'))"

definition shuffle :: "nat list \<Rightarrow> 'a list \<Rightarrow> 'a list \<times> nat list" where
  "shuffle rs xs = shuffle_fuel (length xs) rs xs"

text \<open>\<open>min(x :: xs, key=f)\<close>: the first element whose key is least.\<close>

fun min_by :: "('a \<Rightarrow> 'k::linorder) \<Rightarrow> 'a \<Rightarrow> 'a list \<Rightarrow> 'a" where
  "min_by f b [] = b"
| "min_by f b (x # xs) = min_by f (if f x < f b then x else b) xs"

text \<open>\<open>xs.remove(x)\<close>: drops the first occurrence, raises when there is none.\<close>

definition py_remove :: "'a \<Rightarrow> 'a list \<Rightarrow> gen_error + 'a list" where
  "py_remove x xs = (if x \<in> set xs then Inr (remove1 x xs) else Inl RemoveAbsent)"

section \<open>The state of one generation run\<close>

record 'n gstate =
  g_shifts :: "'n sched"
  g_counts :: "'n tally"
  g_offs :: "int list"
  g_rnd :: "nat list"

section \<open>Phase 0: night pairs\<close>

text \<open>
  \<open>assign_night_shift_pairs\<close>. The first loop walks the day pairs and gives the pair
  to the eligible employee whose last pair ended longest ago, with a forced Off on the
  day after; the second loop gives a single Night, to a random eligible employee, on
  every day the first loop left without one.
\<close>

record 'n pairing =
  p_shifts :: "'n sched"
  p_offs :: "int list"
  p_last :: "('n \<times> int) list"
  p_assigned :: "bool list"

definition pair_candidates :: "'n list \<Rightarrow> nat \<Rightarrow> 'n pairing \<Rightarrow> nat \<Rightarrow> 'n list" where
  "pair_candidates employee_names total_days st day =
     filter (\<lambda>emp. dict_get (p_last st) emp (- 100) + 10 \<le> int day
                  \<and> cell_at (p_shifts st) emp day = None
                  \<and> cell_at (p_shifts st) emp (day + 1) = None
                  \<and> (day + 2 \<ge> total_days
                     \<or> (cell_at (p_shifts st) emp (day + 2) = None \<and> p_offs st ! (day + 2) = 0)))
            employee_names"

definition pair_step :: "'n list \<Rightarrow> nat \<Rightarrow> nat \<Rightarrow> 'n pairing \<Rightarrow> 'n pairing" where
  "pair_step employee_names total_days day st =
     (if p_assigned st ! day \<or> p_assigned st ! (day + 1) then st
      else
        case pair_candidates employee_names total_days st day of
          [] \<Rightarrow> st
        | c # cs \<Rightarrow>
            let emp = min_by (\<lambda>x. dict_get (p_last st) x (- 100)) c cs;
                S1 = set_cell (set_cell (p_shifts st) emp day (Some 3)) emp (day + 1) (Some 3);
                st1 = st\<lparr>p_shifts := S1,
                         p_assigned := (p_assigned st)[day := True, day + 1 := True],
                         p_last := AList.update emp (int day + 1) (p_last st)\<rparr>
            in if day + 2 < total_days
               then st1\<lparr>p_shifts := set_cell S1 emp (day + 2) (Some 0),
                        p_offs := (p_offs st)[day + 2 := 1]\<rparr>
               else st1)"

definition single_night_step ::
  "'n list \<Rightarrow> nat \<Rightarrow> bool list \<Rightarrow> nat \<Rightarrow> 'n sched \<times> nat list \<Rightarrow> 'n sched \<times> nat list" where
  "single_night_step employee_names total_days night_assigned day st =
     (let (S, rs) = st in
      if night_assigned ! day then st
      else
        case filter (\<lambda>emp. cell_at S emp day = None
                           \<and> is_shift_viable S emp day (Some 3) total_days) employee_names of
          [] \<Rightarrow> st
        | c # cs \<Rightarrow> let (emp, rs') = choice rs c cs in (set_cell S emp day (Some 3), rs'))"

definition assign_night_shift_pairs :: "'n list \<Rightarrow> nat \<Rightarrow> 'n gstate \<Rightarrow> 'n gstate" where
  "assign_night_shift_pairs employee_names total_days g =
     (let st0 = \<lparr>p_shifts = g_shifts g, p_offs = g_offs g,
                 p_last = map (\<lambda>emp. (emp, - 100)) (dict_keys employee_names),
                 p_assigned = replicate total_days False\<rparr>;
          st1 = fold (pair_step employee_names total_days) [0 ..< total_days - 1] st0;
          (S, rs) = fold (single_night_step employee_names total_days (p_assigned st1))
                      [0 ..< total_days] (p_shifts st1, g_rnd g)
      in g\<lparr>g_shifts := S, g_offs := p_offs st1, g_rnd := rs\<rparr>)"

section \<open>Phase 1: off days\<close>

text \<open>
  The loop state of Phase 1: the run state, \<open>last_off_day\<close> and \<open>weekday_offs\<close>.
\<close>

type_synonym 'n offstate = "'n gstate \<times> ('n \<times> int) list \<times> ('n \<times> nat list) list"

text \<open>The scan of the trailing eight days: \<open>(work_streak, consecutive_work)\<close>.\<close>

fun streak_scan :: "'n sched \<Rightarrow> 'n \<Rightarrow> int \<Rightarrow> nat list \<Rightarrow> int \<Rightarrow> bool \<times> int" where
  "streak_scan S employee day [] n = (True, n)"
| "streak_scan S employee day (i # rest) n =
     (let check_day = day - int i in
      if check_day < 0 then (True, n)
      else if cell_at S employee (nat check_day) = Some 0 then (False, n)
      else streak_scan S employee day rest
             (if cell_at S employee (nat check_day) \<noteq> None then n + 1 else n))"

definition give_off :: "'n \<Rightarrow> nat \<Rightarrow> 'n offstate \<Rightarrow> 'n offstate" where
  "give_off employee day st =
     (let (g, last_off_day, weekday_offs) = st in
      (g\<lparr>g_shifts := set_cell (g_shifts g) employee day (Some 0),
         g_counts := add_count (g_counts g) employee 0 1,
         g_offs := (g_offs g)[day := g_offs g ! day + 1]\<rparr>,
       AList.update employee (int day) last_off_day,
       AList.update employee ((day mod 7) # dict_get weekday_offs employee []) weekday_offs))"

definition streak_step :: "nat \<Rightarrow> 'n \<Rightarrow> 'n offstate \<Rightarrow> 'n offstate" where
  "streak_step day employee st =
     (let (g, last_off_day, weekday_offs) = st in
      if day \<ge> 7 then
        let (work_streak, consecutive_work) =
              streak_scan (g_shifts g) employee (int day) [0 ..< 8] 0
        in if work_streak \<and> consecutive_work > 7
              \<and> cell_at (g_shifts g) employee day = None \<and> g_offs g ! day = 0
              \<and> count_of (g_counts g) employee 0 < 5
           then give_off employee day st
           else st
      else st)"

definition off_score :: "int \<Rightarrow> nat list \<Rightarrow> nat \<Rightarrow> enat \<times> nat" where
  "off_score last_off weekdays day =
     ((if last_off \<ge> 0
       then (let gap_from_last = int day - last_off in
             if 5 \<le> gap_from_last \<and> gap_from_last \<le> 7
             then enat (nat \<bar>gap_from_last - 6\<bar>) else 100)
       else \<infinity>),
      if day mod 7 \<in> set weekdays then 1 else 0)"

definition week_employee_step ::
  "nat \<Rightarrow> nat \<Rightarrow> nat \<Rightarrow> 'n \<Rightarrow> 'n offstate \<Rightarrow> 'n offstate" where
  "week_employee_step total_days week_start week_end employee st =
     (let (g, last_off_day, weekday_offs) = st; S = g_shifts g in
      if count_of (g_counts g) employee 0 \<ge> 5 then st
      else if list_ex (\<lambda>d. d < total_days \<and> cell_at S employee d \<noteq> None
                            \<and> cell_at S employee d = Some 0) [week_start ..< week_end]
      then st
      else
        let viable_off_days =
              map (\<lambda>day. (off_score (dict_get last_off_day employee (- 10))
                                    (dict_get weekday_offs employee []) day, day))
                (filter (\<lambda>day. \<not> (day \<ge> total_days \<or> cell_at S employee day \<noteq> None
                                    \<or> g_offs g ! day > 0)) [week_start ..< week_end]);
            open_days =
              filter (\<lambda>day. day < total_days \<and> cell_at S employee day = None
                            \<and> g_offs g ! day = 0) [week_start ..< week_end];
            best_day =
              (case map fst viable_off_days of
                 [] \<Rightarrow> (case open_days of [] \<Rightarrow> None | d # _ \<Rightarrow> Some d)
               | sc # scs \<Rightarrow>
                   if fst (min_by (\<lambda>x. x) sc scs) \<ge> 100
                   then (case open_days of [] \<Rightarrow> None | d # _ \<Rightarrow> Some d)
                   else (case sort_key fst viable_off_days of
                           [] \<Rightarrow> None | v # _ \<Rightarrow> Some (snd v)))
        in case best_day of None \<Rightarrow> st | Some d \<Rightarrow> give_off employee d st)"

definition week_step :: "'n list \<Rightarrow> nat \<Rightarrow> nat \<Rightarrow> 'n offstate \<Rightarrow> 'n offstate" where
  "week_step employee_names total_days week st =
     (let (g, last_off_day, weekday_offs) = st;
          week_start = week * 7;
          week_end = min (week_start + 7) total_days;
          (shuffled_employees, rs) = shuffle (g_rnd g) employee_names
      in fold (week_employee_step total_days week_start week_end) shuffled_employees
           (g\<lparr>g_rnd := rs\<rparr>, last_off_day, weekday_offs))"

definition sweep_step :: "'n list \<Rightarrow> nat \<Rightarrow> 'n gstate \<Rightarrow> 'n gstate" where
  "sweep_step employee_names day g =
     (if g_offs g ! day = 0 then
        case filter (\<lambda>emp. cell_at (g_shifts g) emp day = None
                           \<and> count_of (g_counts g) emp 0 < 5) employee_names of
          [] \<Rightarrow> g
        | c # cs \<Rightarrow>
            let (emp, rs) = choice (g_rnd g) c cs in
            g\<lparr>g_shifts := set_cell (g_shifts g) emp day (Some 0),
              g_counts := add_count (g_counts g) emp 0 1,
              g_offs := (g_offs g)[day := 1],
              g_rnd := rs\<rparr>
      else g)"

definition phase1 :: "'n list \<Rightarrow> nat \<Rightarrow> 'n gstate \<Rightarrow> 'n gstate" where
  "phase1 employee_names total_days g =
     (let st0 = (g, map (\<lambda>name. (name, - 10)) (dict_keys employee_names),
                 map (\<lambda>name. (name, [])) (dict_keys employee_names));
          st1 = fold (\<lambda>day. fold (streak_step day) employee_names) [0 ..< total_days] st0;
          total_weeks = (total_days + 6) div 7;
          (g2, last_off_day, weekday_offs) =
             fold (week_step employee_names total_days) [0 ..< total_weeks] st1
      in fold (sweep_step employee_names) [0 ..< total_days] g2)"

section \<open>Phase 2: the first 28 days\<close>

text \<open>A loop whose body may raise: the first error ends it.\<close>

fun fold_err :: "('x \<Rightarrow> 's \<Rightarrow> 'e + 's) \<Rightarrow> 'x list \<Rightarrow> 's \<Rightarrow> 'e + 's" where
  "fold_err f [] s = Inr s"
| "fold_err f (x # xs) s = (case f x s of Inl e \<Rightarrow> Inl e | Inr s' \<Rightarrow> fold_err f xs s')"

text \<open>\<open>TARGET_SHIFTS_PER_DAY.get(code)\<close>.\<close>

definition target_of :: "int \<Rightarrow> int option" where
  "target_of code = map_of [(1, 2), (2, 2), (3, 1)] code"

text \<open>
  \<open>for emp in candidates[:needed]\<close>: write the code, count it, and remove the
  employee from \<open>available_today\<close>.
\<close>

definition assign_one ::
  "nat \<Rightarrow> int \<Rightarrow> 'n \<Rightarrow> 'n gstate \<times> 'n list \<Rightarrow> gen_error + 'n gstate \<times> 'n list" where
  "assign_one day code emp st =
     (let (g, available_today) = st in
      case py_remove emp available_today of
        Inl e \<Rightarrow> Inl e
      | Inr rest \<Rightarrow>
          Inr (g\<lparr>g_shifts := set_cell (g_shifts g) emp day (Some code),
                 g_counts := add_count (g_counts g) emp code 1\<rparr>, rest))"

definition fill_deficit ::
  "'n list \<Rightarrow> nat \<Rightarrow> nat \<Rightarrow> int \<Rightarrow> int \<Rightarrow> 'n gstate \<times> 'n list
     \<Rightarrow> gen_error + 'n gstate \<times> 'n list" where
  "fill_deficit employee_names total_days day code target st =
     (let (g, available_today) = st;
          needed = max 0 (target - count_day (g_shifts g) employee_names day code)
      in if needed > 0 then
           let candidates =
                 sort_key (\<lambda>x. count_of (g_counts g) x code)
                   (filter (\<lambda>emp. is_shift_viable (g_shifts g) emp day (Some code) total_days)
                      available_today)
           in fold_err (assign_one day code) (take (nat needed) candidates) st
         else Inr st)"

definition fallback_step :: "'n list \<Rightarrow> nat \<Rightarrow> nat \<Rightarrow> 'n \<Rightarrow> 'n gstate \<Rightarrow> 'n gstate" where
  "fallback_step employee_names total_days day emp g =
     (let S = g_shifts g;
          preferred_order =
            (if count_day S employee_names day 2 < 2 then [2] else [])
            @ [1]
            @ (if count_day S employee_names day 3 < 1 then [3] else [])
      in case filter (\<lambda>code. is_shift_viable S emp day (Some code) total_days) preferred_order of
           [] \<Rightarrow> g
         | code # _ \<Rightarrow>
             g\<lparr>g_shifts := set_cell S emp day (Some code),
               g_counts := add_count (g_counts g) emp code 1\<rparr>)"

definition phase2_day :: "'n list \<Rightarrow> nat \<Rightarrow> nat \<Rightarrow> 'n gstate \<Rightarrow> gen_error + 'n gstate" where
  "phase2_day employee_names total_days day g =
     (let available_today = filter (\<lambda>emp. cell_at (g_shifts g) emp day = None) employee_names in
      if available_today = [] then Inr g
      else
        case fill_deficit employee_names total_days day 2 2 (g, available_today) of
          Inl e \<Rightarrow> Inl e
        | Inr st1 \<Rightarrow>
            (case fill_deficit employee_names total_days day 1 2 st1 of
               Inl e \<Rightarrow> Inl e
             | Inr st2 \<Rightarrow>
                 (case fill_deficit employee_names total_days day 3 1 st2 of
                    Inl e \<Rightarrow> Inl e
                  | Inr (g3, rest) \<Rightarrow>
                      Inr (fold (fallback_step employee_names total_days day) rest g3))))"

definition phase2 :: "'n list \<Rightarrow> nat \<Rightarrow> 'n gstate \<Rightarrow> gen_error + 'n gstate" where
  "phase2 employee_names total_days g =
     fold_err (phase2_day employee_names total_days) [0 ..< min 28 total_days] g"

section \<open>Phase 3: the 28-day pattern\<close>

definition phase3_cell :: "nat \<Rightarrow> nat \<Rightarrow> 'n \<Rightarrow> 'n gstate \<Rightarrow> gen_error + 'n gstate" where
  "phase3_cell total_days day emp g =
     (let S = g_shifts g in
      if cell_at S emp day = None then
        case cell_at S emp (day mod 28) of
          None \<Rightarrow> Inr g
        | Some pattern_shift \<Rightarrow>
            let assigned_shift =
                  (if is_shift_viable S emp day (Some pattern_shift) total_days
                   then Some pattern_shift
                   else case filter (\<lambda>alt. is_shift_viable S emp day (Some alt) total_days)
                               [2, 1, 3] of
                          [] \<Rightarrow> None
                        | alt # _ \<Rightarrow> Some alt)
            in (case assigned_shift of
                  None \<Rightarrow> Inr g
                | Some a \<Rightarrow>
                    (case add_count_cell (g_counts g) emp (Some a) 1 of
                       Inl e \<Rightarrow> Inl e
                     | Inr C \<Rightarrow> Inr (g\<lparr>g_shifts := set_cell S emp day (Some a), g_counts := C\<rparr>)))
      else Inr g)"

definition phase3 :: "'n list \<Rightarrow> nat \<Rightarrow> 'n gstate \<Rightarrow> gen_error + 'n gstate" where
  "phase3 employee_names total_days g =
     fold_err (\<lambda>day. fold_err (phase3_cell total_days day) employee_names)
       [28 ..< total_days] g"

section \<open>Phase 4: balancing\<close>

text \<open>The tallies are rebuilt from the matrix before balancing.\<close>

definition recount :: "'n list \<Rightarrow> nat \<Rightarrow> 'n sched \<Rightarrow> gen_error + 'n tally" where
  "recount employee_names total_days S =
     fold_err
       (\<lambda>name. fold_err
          (\<lambda>day_idx C. case cell_at S name day_idx of
                          None \<Rightarrow> Inr C
                        | Some k \<Rightarrow> add_count_cell C name (Some k) 1)
          [0 ..< total_days])
       employee_names (zero_tally employee_names)"

text \<open>
  One balancing iteration works on the run state and on \<open>assigned_employees\<close>, the
  lists of the employees holding Morning, Evening and Night on the day. The per-day
  counters the source also updates while moving are not read again before they are
  rebuilt, so they are not part of the state.
\<close>

record 'n balancing =
  b_g :: "'n gstate"
  b_m :: "'n list"
  b_e :: "'n list"
  b_n :: "'n list"
  b_changed :: bool

text \<open>
  Moving surplus holders of \<open>src\<close> (Evening or Night) to Morning:
  \<open>for emp in candidates: if moved_count >= num_to_move: break; ...\<close>.
\<close>

fun move_surplus ::
  "nat \<Rightarrow> nat \<Rightarrow> int \<Rightarrow> int \<Rightarrow> int \<Rightarrow> 'n list \<Rightarrow> 'n balancing \<Rightarrow> gen_error + 'n balancing" where
  "move_surplus total_days day src num_to_move moved_count [] b = Inr b"
| "move_surplus total_days day src num_to_move moved_count (emp # rest) b =
     (if moved_count \<ge> num_to_move then Inr b
      else if is_shift_viable (g_shifts (b_g b)) emp day (Some 1) total_days then
        case py_remove emp (if src = 2 then b_e b else b_n b) of
          Inl e \<Rightarrow> Inl e
        | Inr holders \<Rightarrow>
            let g = b_g b;
                g' = g\<lparr>g_shifts := set_cell (g_shifts g) emp day (Some 1),
                       g_counts := add_count (add_count (g_counts g) emp src (- 1)) emp 1 1\<rparr>;
                b1 = (if src = 2 then b\<lparr>b_e := holders\<rparr> else b\<lparr>b_n := holders\<rparr>)
            in move_surplus total_days day src num_to_move (moved_count + 1) rest
                 (b1\<lparr>b_g := g', b_m := b_m b @ [emp], b_changed := True\<rparr>)
      else move_surplus total_days day src num_to_move moved_count rest b)"

text \<open>
  Pulling donors into Evening:
  \<open>for emp, origin_shift in donors: if found >= num_needed: break; ...\<close>.
  Every donor comes from Morning.
\<close>

fun pull_donors ::
  "nat \<Rightarrow> nat \<Rightarrow> int \<Rightarrow> int \<Rightarrow> ('n \<times> int) list \<Rightarrow> 'n balancing \<Rightarrow> gen_error + 'n balancing" where
  "pull_donors total_days day num_needed found [] b = Inr b"
| "pull_donors total_days day num_needed found ((emp, origin_shift) # rest) b =
     (if found \<ge> num_needed then Inr b
      else if is_shift_viable (g_shifts (b_g b)) emp day (Some 2) total_days then
        case py_remove emp (b_m b) of
          Inl e \<Rightarrow> Inl e
        | Inr holders \<Rightarrow>
            let g = b_g b;
                g' = g\<lparr>g_shifts := set_cell (g_shifts g) emp day (Some 2),
                       g_counts := add_count (add_count (g_counts g) emp 2 1) emp origin_shift (- 1)\<rparr>
            in pull_donors total_days day num_needed (found + 1) rest
                 (b\<lparr>b_g := g', b_e := b_e b @ [emp], b_m := holders, b_changed := True\<rparr>)
      else pull_donors total_days day num_needed found rest b)"

definition balance_evening :: "nat \<Rightarrow> nat \<Rightarrow> 'n balancing \<Rightarrow> gen_error + 'n balancing" where
  "balance_evening total_days day b =
     (let current_e = int (length (b_e b)); C = g_counts (b_g b) in
      if current_e > 2 then
        move_surplus total_days day 2 (current_e - 2) 0
          (sort_key (\<lambda>x. - count_of C x 2) (b_e b)) b
      else if current_e < 2 then
        let donors = (if int (length (b_m b)) > 2 then map (\<lambda>e. (e, 1)) (b_m b) else []);
            sorted_donors =
              sort_key (\<lambda>x. (\<not> is_shift_viable (g_shifts (b_g b)) (fst x) day (Some 2) total_days,
                             count_of C (fst x) 2)) donors
        in pull_donors total_days day (2 - current_e) 0 sorted_donors b
      else Inr b)"

definition balance_night :: "nat \<Rightarrow> nat \<Rightarrow> int \<Rightarrow> 'n balancing \<Rightarrow> gen_error + 'n balancing" where
  "balance_night total_days day current_n b =
     (if current_n > 1 then
        move_surplus total_days day 3 (current_n - 1) 0
          (sort_key (\<lambda>x. - count_of (g_counts (b_g b)) x 3) (b_n b)) b
      else Inr b)"

text \<open>
  \<open>assigned_employees[s]\<close> as an iteration builds it: the employees, in the order of the
  dictionary \<open>shift_assignments_day\<close>, who hold code \<open>s\<close> on the day.
\<close>

definition assigned_employees :: "'n sched \<Rightarrow> 'n list \<Rightarrow> nat \<Rightarrow> int \<Rightarrow> 'n list" where
  "assigned_employees S employee_names day s =
     filter (\<lambda>emp. cell_at S emp day = Some s) (dict_keys employee_names)"

definition balance_iteration ::
  "'n list \<Rightarrow> nat \<Rightarrow> nat \<Rightarrow> 'n gstate \<Rightarrow> gen_error + 'n gstate \<times> bool" where
  "balance_iteration employee_names total_days day g =
     (let holders = assigned_employees (g_shifts g) employee_names day;
          b0 = \<lparr>b_g = g, b_m = holders 1, b_e = holders 2, b_n = holders 3, b_changed = False\<rparr>
      in case balance_evening total_days day b0 of
           Inl e \<Rightarrow> Inl e
         | Inr b1 \<Rightarrow>
             (case balance_night total_days day (int (length (holders 3))) b1 of
                Inl e \<Rightarrow> Inl e
              | Inr b2 \<Rightarrow> Inr (b_g b2, b_changed b2)))"

text \<open>\<open>for iteration in range(MAX_BALANCE_ITERATIONS)\<close>, left when nothing changed.\<close>

fun balance_day :: "nat \<Rightarrow> 'n list \<Rightarrow> nat \<Rightarrow> nat \<Rightarrow> 'n gstate \<Rightarrow> gen_error + 'n gstate" where
  "balance_day 0 employee_names total_days day g = Inr g"
| "balance_day (Suc n) employee_names total_days day g =
     (case balance_iteration employee_names total_days day g of
        Inl e \<Rightarrow> Inl e
      | Inr (g', made_change) \<Rightarrow>
          if made_change then balance_day n employee_names total_days day g' else Inr g')"

definition phase4 :: "'n list \<Rightarrow> nat \<Rightarrow> 'n gstate \<Rightarrow> gen_error + 'n gstate" where
  "phase4 employee_names total_days g =
     (case recount employee_names total_days (g_shifts g) of
        Inl e \<Rightarrow> Inl e
      | Inr C \<Rightarrow>
          fold_err (balance_day 7 employee_names total_days) [0 ..< total_days]
            (g\<lparr>g_counts := C\<rparr>))"

section \<open>Phase 4.5: presence of every shift\<close>

text \<open>
  One repair of an empty shift \<open>dest\<close>: donors come from \<open>src_a\<close> and \<open>src_b\<close> when
  these are above target, otherwise when they are exactly on target; the first donor
  (viable ones first, then least loaded in \<open>dest\<close>, then \<open>src_a\<close> before \<open>src_b\<close>) for
  whom \<open>dest\<close> is viable moves. The result says whether somebody moved.
\<close>

definition presence_fix ::
  "'n list \<Rightarrow> nat \<Rightarrow> nat \<Rightarrow> int \<Rightarrow> int \<Rightarrow> int \<Rightarrow> 'n gstate \<Rightarrow> 'n gstate \<times> bool" where
  "presence_fix employee_names total_days day dest src_a src_b g =
     (let S = g_shifts g;
          workers = (\<lambda>src. map (\<lambda>e. (e, src))
                             (filter (\<lambda>e. cell_at S e day = Some src) employee_names));
          n_a = count_day S employee_names day src_a;
          n_b = count_day S employee_names day src_b;
          t_a = (case target_of src_a of None \<Rightarrow> 0 | Some t \<Rightarrow> t);
          t_b = (case target_of src_b of None \<Rightarrow> 0 | Some t \<Rightarrow> t);
          surplus = (if n_a > t_a then workers src_a else [])
                    @ (if n_b > t_b then workers src_b else []);
          candidates =
            (if surplus = []
             then (if n_a = t_a then workers src_a else [])
                  @ (if n_b = t_b then workers src_b else [])
             else surplus);
          ordered =
            sort_key (\<lambda>x. (\<not> is_shift_viable S (fst x) day (Some dest) total_days,
                           count_of (g_counts g) (fst x) dest, snd x = src_b)) candidates
      in case filter (\<lambda>x. is_shift_viable S (fst x) day (Some dest) total_days) ordered of
           [] \<Rightarrow> (g, False)
         | (emp, origin) # _ \<Rightarrow>
             (g\<lparr>g_shifts := set_cell S emp day (Some dest),
                g_counts := add_count (add_count (g_counts g) emp origin (- 1)) emp dest 1\<rparr>,
              True))"

text \<open>One pass of the \<open>while\<close> loop: the new state and \<open>needs_check\<close>.\<close>

definition presence_iteration ::
  "'n list \<Rightarrow> nat \<Rightarrow> nat \<Rightarrow> 'n gstate \<Rightarrow> 'n gstate \<times> bool" where
  "presence_iteration employee_names total_days day g =
     (let c1 = count_day (g_shifts g) employee_names day 1;
          c2 = count_day (g_shifts g) employee_names day 2;
          c3 = count_day (g_shifts g) employee_names day 3
      in if c1 + c2 + c3 = 0 then (g, False)
         else
           let (g1, moved1) =
                 (if c2 = 0 then presence_fix employee_names total_days day 2 1 3 g
                  else (g, False))
           in if moved1 then (g1, True)
              else
                let (g2, moved2) =
                      (if c1 = 0 then presence_fix employee_names total_days day 1 2 3 g1
                       else (g1, False))
                in if moved2 then (g2, True)
                   else
                     let (g3, moved3) =
                           (if c3 = 0 then presence_fix employee_names total_days day 3 1 2 g2
                            else (g2, False))
                     in (g3, c2 = 0 \<or> c1 = 0 \<or> c3 = 0))"

text \<open>\<open>while needs_check and check_iteration < max_check_iterations\<close>.\<close>

fun presence_day :: "nat \<Rightarrow> 'n list \<Rightarrow> nat \<Rightarrow> nat \<Rightarrow> 'n gstate \<Rightarrow> 'n gstate" where
  "presence_day 0 employee_names total_days day g = g"
| "presence_day (Suc n) employee_names total_days day g =
     (let (g', needs_check) = presence_iteration employee_names total_days day g in
      if needs_check then presence_day n employee_names total_days day g' else g')"

definition phase45 :: "'n list \<Rightarrow> nat \<Rightarrow> 'n gstate \<Rightarrow> 'n gstate" where
  "phase45 employee_names total_days g =
     fold (presence_day 5 employee_names total_days) [0 ..< total_days] g"

section \<open>Phase 4.6: one Night-Night block for every employee\<close>

definition has_nn :: "'n sched \<Rightarrow> 'n \<Rightarrow> nat \<Rightarrow> bool" where
  "has_nn S emp total_days =
     list_ex (\<lambda>d. cell_at S emp d = Some 3 \<and> cell_at S emp (d + 1) = Some 3)
       [0 ..< total_days - 1]"

text \<open>The test of the scan: both cells in \<open>[None, 1, 2]\<close> and Night viable on both days.\<close>

definition nn_window :: "'n sched \<Rightarrow> 'n \<Rightarrow> nat \<Rightarrow> nat \<Rightarrow> bool" where
  "nn_window S emp total_days day =
     (cell_at S emp day \<in> {None, Some 1, Some 2}
      \<and> cell_at S emp (day + 1) \<in> {None, Some 1, Some 2}
      \<and> is_shift_viable S emp day (Some 3) total_days
      \<and> is_shift_viable S emp (day + 1) (Some 3) total_days)"

text \<open>
  \<open>shift_counts[emp][old] -= 1 if old is not None else 0\<close> subtracts the conditional
  value under the key \<open>old\<close>, whatever \<open>old\<close> is.
\<close>

definition phase46_emp :: "nat \<Rightarrow> 'n \<Rightarrow> 'n gstate \<Rightarrow> gen_error + 'n gstate" where
  "phase46_emp total_days emp g =
     (let S = g_shifts g in
      if has_nn S emp total_days then Inr g
      else
        case filter (nn_window S emp total_days) [0 ..< total_days - 1] of
          [] \<Rightarrow> Inr g
        | day # _ \<Rightarrow>
            let old1 = cell_at S emp day;
                old2 = cell_at S emp (day + 1);
                S' = set_cell (set_cell S emp day (Some 3)) emp (day + 1) (Some 3)
            in (case add_count_cell (g_counts g) emp old1 (- (if old1 \<noteq> None then 1 else 0)) of
                  Inl e \<Rightarrow> Inl e
                | Inr C1 \<Rightarrow>
                    (case add_count_cell C1 emp old2 (- (if old2 \<noteq> None then 1 else 0)) of
                       Inl e \<Rightarrow> Inl e
                     | Inr C2 \<Rightarrow>
                         Inr (g\<lparr>g_shifts := S', g_counts := add_count C2 emp 3 2\<rparr>))))"

definition phase46 :: "'n list \<Rightarrow> nat \<Rightarrow> 'n gstate \<Rightarrow> gen_error + 'n gstate" where
  "phase46 employee_names total_days g = fold_err (phase46_emp total_days) employee_names g"

section \<open>Phase 5: Morning after Night\<close>

definition phase5_cell :: "'n list \<Rightarrow> nat \<Rightarrow> 'n \<Rightarrow> nat \<Rightarrow> 'n gstate \<Rightarrow> 'n gstate" where
  "phase5_cell employee_names total_days emp day g =
     (let S = g_shifts g; C = g_counts g in
      if cell_at S emp day = Some 1 \<and> cell_at S emp (day - 1) = Some 3 then
        if is_shift_viable S emp day (Some 2) total_days then
          let S1 = set_cell S emp day (Some 2);
              C1 = add_count (add_count C emp 1 (- 1)) emp 2 1;
              g1 = g\<lparr>g_shifts := S1, g_counts := C1\<rparr>
          in if count_day S1 employee_names day 2 > 2 \<and> count_day S1 employee_names day 1 < 2
             then
               let candidates_e =
                     sort_key (\<lambda>x. count_of C1 x 1)
                       (filter (\<lambda>e. cell_at S1 e day = Some 2 \<and> e \<noteq> emp) employee_names)
               in case filter (\<lambda>e. is_shift_viable S1 e day (Some 1) total_days) candidates_e of
                    [] \<Rightarrow> g1
                  | swap_emp # _ \<Rightarrow>
                      g1\<lparr>g_shifts := set_cell S1 swap_emp day (Some 1),
                         g_counts := add_count (add_count C1 swap_emp 2 (- 1)) swap_emp 1 1\<rparr>
             else g1
        else if is_shift_viable S emp day (Some 0) total_days \<and> g_offs g ! day = 0 then
          g\<lparr>g_shifts := set_cell S emp day (Some 0),
            g_counts := add_count (add_count C emp 1 (- 1)) emp 0 1,
            g_offs := (g_offs g)[day := 1]\<rparr>
        else g
      else g)"

definition phase5 :: "'n list \<Rightarrow> nat \<Rightarrow> 'n gstate \<Rightarrow> 'n gstate" where
  "phase5 employee_names total_days g =
     fold (\<lambda>emp. fold (phase5_cell employee_names total_days emp) [1 ..< total_days])
       employee_names g"

section \<open>Phase 6: Off after Night-Night, forbidden patterns\<close>

text \<open>\<open>if key in shift_counts[name]: shift_counts[name][key] -= 1\<close>.\<close>

definition decr_if_key :: "'n tally \<Rightarrow> 'n \<Rightarrow> cell \<Rightarrow> 'n tally" where
  "decr_if_key C name key =
     (case key of
        None \<Rightarrow> C
      | Some k \<Rightarrow> if has_key C name key then add_count C name k (- 1) else C)"

definition nn_off_step :: "'n list \<Rightarrow> nat \<Rightarrow> 'n \<Rightarrow> nat \<Rightarrow> 'n gstate \<Rightarrow> 'n gstate" where
  "nn_off_step employee_names total_days emp day g =
     (let S = g_shifts g in
      case cell_at S emp day of
        None \<Rightarrow> g
      | Some orig_shift \<Rightarrow>
          if cell_at S emp (day - 2) = Some 3 \<and> cell_at S emp (day - 1) = Some 3
             \<and> orig_shift \<noteq> 0
          then
            let S1 = set_cell S emp day (Some 0);
                C1 = incr_get (decr_if_key (g_counts g) emp (Some orig_shift)) emp 0;
                g1 = g\<lparr>g_shifts := S1, g_counts := C1, g_offs := (g_offs g)[day := 1]\<rparr>;
                is_below_target =
                  (case target_of orig_shift of
                     None \<Rightarrow> False
                   | Some target \<Rightarrow>
                       if orig_shift = 1 then count_day S1 employee_names day 1 < target
                       else if orig_shift = 2 \<or> orig_shift = 3
                       then count_day S1 employee_names day orig_shift < target
                       else False)
            in if is_below_target then
                 case sort_key (\<lambda>x. (count_of C1 x orig_shift, cell_at S1 x day \<noteq> Some 1))
                        (filter (\<lambda>e. e \<noteq> emp \<and> cell_at S1 e day \<noteq> Some 0
                                      \<and> cell_at S1 e day \<noteq> None
                                      \<and> is_shift_viable S1 e day (Some orig_shift) total_days)
                           employee_names) of
                   [] \<Rightarrow> g1
                 | swap_emp # _ \<Rightarrow>
                     g1\<lparr>g_shifts := set_cell S1 swap_emp day (Some orig_shift),
                        g_counts := incr_get (decr_if_key C1 swap_emp (cell_at S1 swap_emp day))
                                      swap_emp orig_shift\<rparr>
               else g1
          else g)"

definition pattern_off_step :: "'n list \<Rightarrow> nat \<Rightarrow> 'n \<Rightarrow> nat \<Rightarrow> 'n gstate \<Rightarrow> 'n gstate" where
  "pattern_off_step employee_names total_days emp day g =
     (let S = g_shifts g; shifts = row_of S emp in
      if cell_at S emp day = Some 1 then
        let pattern_nem = (day \<ge> 2 \<and> slice shifts (day - 2) day = [Some 3, Some 2]);
            pattern_nee = (slice shifts (day - 3) day = [Some 3, Some 2, Some 2]);
            pattern_nene = (day \<ge> 4 \<and> slice shifts (day - 4) day = [Some 3, Some 2, Some 3, Some 2]);
            pattern_enee = (day \<ge> 4 \<and> slice shifts (day - 4) day = [Some 2, Some 3, Some 2, Some 2])
        in if pattern_nem \<or> pattern_nee \<or> pattern_nene \<or> pattern_enee then
             let S1 = set_cell S emp day (Some 0);
                 C1 = incr_get (add_count (g_counts g) emp 1 (- 1)) emp 0;
                 g1 = g\<lparr>g_shifts := S1, g_counts := C1, g_offs := (g_offs g)[day := 1]\<rparr>
             in if count_day S1 employee_names day 1 < 2 then
                  case sort_key (\<lambda>x. (count_of C1 x 1, cell_at S1 x day = Some 3))
                         (filter (\<lambda>e. e \<noteq> emp
                                       \<and> (cell_at S1 e day = Some 2 \<or> cell_at S1 e day = Some 3)
                                       \<and> is_shift_viable S1 e day (Some 1) total_days)
                            employee_names) of
                    [] \<Rightarrow> g1
                  | swap_emp # _ \<Rightarrow>
                      g1\<lparr>g_shifts := set_cell S1 swap_emp day (Some 1),
                         g_counts := incr_get (decr_if_key C1 swap_emp (cell_at S1 swap_emp day))
                                       swap_emp 1\<rparr>
                else g1
           else g
      else g)"

definition phase6_emp :: "'n list \<Rightarrow> nat \<Rightarrow> 'n \<Rightarrow> 'n gstate \<Rightarrow> 'n gstate" where
  "phase6_emp employee_names total_days emp g =
     fold (pattern_off_step employee_names total_days emp) [3 ..< total_days]
       (fold (nn_off_step employee_names total_days emp) [2 ..< total_days] g)"

definition phase6 :: "'n list \<Rightarrow> nat \<Rightarrow> 'n gstate \<Rightarrow> 'n gstate" where
  "phase6 employee_names total_days g = fold (phase6_emp employee_names total_days) employee_names g"

section \<open>The generator\<close>

text \<open>
  \<open>generate_optimized_shifts(employee_names, total_days)\<close>, with the random draws as a
  third argument. The final check of the source only logs and is not part of the
  result.
\<close>

definition initial_state :: "'n list \<Rightarrow> nat \<Rightarrow> nat list \<Rightarrow> 'n gstate" where
  "initial_state employee_names total_days rs =
     \<lparr>g_shifts = map (\<lambda>name. (name, replicate total_days None)) (dict_keys employee_names),
      g_counts = zero_tally employee_names,
      g_offs = replicate total_days 0,
      g_rnd = rs\<rparr>"

definition run_phases :: "'n list \<Rightarrow> nat \<Rightarrow> 'n gstate \<Rightarrow> gen_error + 'n gstate" where
  "run_phases employee_names total_days g0 =
     (case phase2 employee_names total_days
             (phase1 employee_names total_days
                (assign_night_shift_pairs employee_names total_days g0)) of
        Inl e \<Rightarrow> Inl e
      | Inr g2 \<Rightarrow>
          (case phase3 employee_names total_days g2 of
             Inl e \<Rightarrow> Inl e
           | Inr g3 \<Rightarrow>
               (case phase4 employee_names total_days g3 of
                  Inl e \<Rightarrow> Inl e
                | Inr g4 \<Rightarrow>
                    (case phase46 employee_names total_days
                            (phase45 employee_names total_days g4) of
                       Inl e \<Rightarrow> Inl e
                     | Inr g5 \<Rightarrow>
                         Inr (phase6 employee_names total_days
                                (phase5 employee_names total_days g5))))))"

definition generate_optimized_shifts ::
  "'n list \<Rightarrow> nat \<Rightarrow> nat list \<Rightarrow> gen_error + 'n sched" where
  "generate_optimized_shifts employee_names total_days rs =
     (if int (length employee_names) < 2 + 2 + 1 + 1 then Inl InsufficientRoster
      else
        case run_phases employee_names total_days (initial_state employee_names total_days rs) of
          Inl e \<Rightarrow> Inl e
        | Inr g \<Rightarrow> Inr (g_shifts g))"

section \<open>Properties of the legality predicate\<close>

lemma preceded_by_1:
  "d < length r \<Longrightarrow> preceded_by r d [a] = (0 < d \<and> r ! (d - 1) = a)"
  by (cases d) (auto simp: preceded_by_def slice_def take_Suc_conv_app_nth)

lemma preceded_by_2:
  "d < length r \<Longrightarrow>
   preceded_by r d [a, b] = (2 \<le> d \<and> r ! (d - 2) = a \<and> r ! (d - 1) = b)"
proof (cases "2 \<le> d")
  case False
  then show ?thesis by (simp add: preceded_by_def)
next
  case True
  assume lt: "d < length r"
  from True obtain k where d: "d = Suc (Suc k)"
    by (metis One_nat_def Suc_1 Suc_le_D Suc_le_mono)
  have "take 2 (drop k r) = [r ! k, r ! Suc k]"
    using lt d by (simp add: numeral_2_eq_2 take_Suc_conv_app_nth)
  then show ?thesis using d by (auto simp: preceded_by_def slice_def)
qed

lemma preceded_by_3:
  "preceded_by r d [a, b, c] = (3 \<le> d \<and> slice r (d - 3) d = [a, b, c])"
  by (simp add: preceded_by_def numeral_3_eq_3)

lemma preceded_by_4:
  "preceded_by r d [a, b, c, e] = (4 \<le> d \<and> slice r (d - 4) d = [a, b, c, e])"
  by (simp add: preceded_by_def eval_nat_numeral)

lemma viable_iff_rules:
  "is_shift_viable employee_shifts name day (Some c) total_days
     = viable_by_rules (row_of employee_shifts name) day c"
proof -
  let ?r = "row_of employee_shifts name"
  show ?thesis
  proof (cases "c = 0 \<or> length ?r \<le> day")
    case True
    then show ?thesis
      unfolding is_shift_viable_def viable_by_rules_def Let_def
      by (cases "c = 0") simp_all
  next
    case False
    then have lt: "day < length ?r" and c: "c \<noteq> 0" by auto
    show ?thesis
    proof (cases "c = 1")
      case True
      then show ?thesis using lt
        unfolding is_shift_viable_def viable_by_rules_def Let_def
        by (simp add: preceded_by_1 preceded_by_2 preceded_by_3 preceded_by_4)
    next
      case False
      then show ?thesis using lt c
        unfolding is_shift_viable_def viable_by_rules_def Let_def
        by (simp add: preceded_by_1 preceded_by_2 preceded_by_3 preceded_by_4)
    qed
  qed
qed

text \<open>
  C1. The legality predicate depends on the employee's own row only (neither on other
  rows nor on \<open>total_days\<close>), and on that row it decides exactly by the listed rules:
  Off is viable for every schedule, employee and day; a non-Off code is refused when
  the day is outside the row or the two preceding days are both Night; Morning is
  refused after a Night and after the four listed histories; everything else is
  viable. An unset candidate is never viable.
\<close>

theorem is_shift_viable_rules:
  "is_shift_viable employee_shifts name day (Some c) total_days
     = viable_by_rules (row_of employee_shifts name) day c
   \<and> is_shift_viable employee_shifts name day None total_days = False"
  by (simp add: viable_iff_rules) (simp add: is_shift_viable_def)

theorem is_shift_viable_rules_witness:
  "is_shift_viable [(''a'', [Some 3, Some 2, None]), (''b'', [Some 3, Some 3, Some 0])]
       ''a'' 2 (Some 1) 3 = False
   \<and> is_shift_viable [(''a'', [Some 3, Some 2, None]), (''b'', [Some 3, Some 3, Some 0])]
       ''a'' 2 (Some 2) 3 = True"
  using is_shift_viable_rules [of "[(''a'', [Some 3, Some 2, None]), (''b'', [Some 3, Some 3, Some 0])]"
      "''a''" 2 1 3]
    is_shift_viable_rules [of "[(''a'', [Some 3, Some 2, None]), (''b'', [Some 3, Some 3, Some 0])]"
      "''a''" 2 2 3]
  by (simp add: viable_by_rules_def preceded_by_def slice_def row_of_def)

section \<open>Errors the phases can raise\<close>

text \<open>
  The removals of Phase 2 and Phase 4 always find their element: the employees removed
  come from a list that was filtered and sorted out of the list they are removed from.
  What is left is the \<open>KeyError\<close> of a tally update.
\<close>

lemma fold_err_Inl:
  assumes "fold_err f xs s = Inl e" and "\<And>x s e. f x s = Inl e \<Longrightarrow> P e"
  shows "P e"
  using assms by (induction xs arbitrary: s) (auto split: sum.splits)

lemma add_count_cell_Inl: "add_count_cell C name key delta = Inl e \<Longrightarrow> e = KeyError"
  by (auto simp: add_count_cell_def split: option.splits if_splits)

lemma py_remove_Inr: "x \<in> set xs \<Longrightarrow> py_remove x xs = Inr (remove1 x xs)"
  by (simp add: py_remove_def)

lemma assign_all_Inr:
  "mset cs \<subseteq># mset av \<Longrightarrow> \<exists>g' av'. fold_err (assign_one day code) cs (g, av) = Inr (g', av')"
proof (induction cs arbitrary: g av)
  case Nil
  then show ?case by simp
next
  case (Cons c cs)
  from Cons.prems have c: "c \<in> set av"
    by (metis mset_subset_eqD set_mset_mset list.set_intros(1))
  from Cons.prems have "mset cs \<subseteq># mset (remove1 c av)"
    by (simp add: insert_subset_eq_iff)
  from Cons.IH [OF this] show ?case
    using c by (simp add: assign_one_def py_remove_Inr)
qed

lemma mset_take_sort_filter: "mset (take k (sort_key f (filter P av))) \<subseteq># mset av"
proof -
  have "mset (take k (sort_key f (filter P av))) \<subseteq># mset (sort_key f (filter P av))"
    by (metis append_take_drop_id mset_append mset_subset_eq_add_left)
  also have "\<dots> \<subseteq># mset av" by simp
  finally show ?thesis .
qed

lemma fill_deficit_Inr:
  "\<exists>st'. fill_deficit employee_names total_days day code target st = Inr st'"
  by (cases st) (auto simp: fill_deficit_def Let_def intro!: assign_all_Inr mset_take_sort_filter)

lemma phase2_day_not_Inl: "phase2_day employee_names total_days day g \<noteq> Inl e"
proof -
  obtain st1 where 1: "fill_deficit employee_names total_days day 2 2
      (g, filter (\<lambda>emp. cell_at (g_shifts g) emp day = None) employee_names) = Inr st1"
    using fill_deficit_Inr by blast
  obtain st2 where 2: "fill_deficit employee_names total_days day 1 2 st1 = Inr st2"
    using fill_deficit_Inr by blast
  obtain st3 where 3: "fill_deficit employee_names total_days day 3 1 st2 = Inr st3"
    using fill_deficit_Inr by blast
  show ?thesis
    using 1 2 3 by (cases st3) (simp add: phase2_day_def Let_def)
qed

lemma phase2_not_Inl: "phase2 employee_names total_days g \<noteq> Inl e"
  unfolding phase2_def using fold_err_Inl [where P = "\<lambda>_. False"] phase2_day_not_Inl
  by (metis)

lemma phase3_Inl: "phase3 employee_names total_days g = Inl e \<Longrightarrow> e = KeyError"
  unfolding phase3_def
  apply (erule fold_err_Inl)
  apply (erule fold_err_Inl)
  apply (auto simp: phase3_cell_def Let_def split: option.splits if_splits sum.splits list.splits dest: add_count_cell_Inl)
  done


lemma move_surplus_Inr:
  "mset cs \<subseteq># mset (if src = 2 then b_e b else b_n b)
   \<Longrightarrow> \<exists>b'. move_surplus total_days day src k m cs b = Inr b'"
proof (induction cs arbitrary: b m)
  case Nil
  then show ?case by simp
next
  case (Cons emp cs)
  let ?holders = "if src = 2 then b_e b else b_n b"
  from Cons.prems have emp: "emp \<in> set ?holders"
    by (metis mset_subset_eqD set_mset_mset list.set_intros(1))
  from Cons.prems have rest: "mset cs \<subseteq># mset (remove1 emp ?holders)"
    by (simp add: insert_subset_eq_iff)
  from Cons.prems have keep: "mset cs \<subseteq># mset ?holders"
    by (metis mset.simps(2) mset_subset_eq_insertD subset_mset.less_imp_le)
  show ?case
  proof (cases "m \<ge> k")
    case True
    then show ?thesis by simp
  next
    case stop: False
    show ?thesis
    proof (cases "is_shift_viable (g_shifts (b_g b)) emp day (Some 1) total_days")
      case False
      then show ?thesis using stop Cons.IH [OF keep] by simp
    next
      case True
      then show ?thesis
        using stop emp rest Cons.IH
        by (cases "src = 2") (simp_all add: py_remove_Inr Let_def)
    qed
  qed
qed

lemma pull_donors_Inr:
  "mset (map fst ds) \<subseteq># mset (b_m b)
   \<Longrightarrow> \<exists>b'. pull_donors total_days day k m ds b = Inr b'"
proof (induction ds arbitrary: b m)
  case Nil
  then show ?case by simp
next
  case (Cons d ds)
  obtain emp origin where d: "d = (emp, origin)" by (cases d)
  from Cons.prems d have emp: "emp \<in> set (b_m b)"
    by (metis fst_conv list.simps(9) mset_subset_eqD set_mset_mset list.set_intros(1))
  from Cons.prems d have rest: "mset (map fst ds) \<subseteq># mset (remove1 emp (b_m b))"
    by (simp add: insert_subset_eq_iff)
  from Cons.prems have keep: "mset (map fst ds) \<subseteq># mset (b_m b)"
    by (metis list.simps(9) mset.simps(2) mset_subset_eq_insertD subset_mset.less_imp_le)
  show ?case
  proof (cases "m \<ge> k")
    case True
    then show ?thesis using d by simp
  next
    case stop: False
    show ?thesis
    proof (cases "is_shift_viable (g_shifts (b_g b)) emp day (Some 2) total_days")
      case False
      then show ?thesis using stop d Cons.IH [OF keep] by simp
    next
      case True
      then show ?thesis
        using stop emp rest d Cons.IH by (simp add: py_remove_Inr Let_def)
    qed
  qed
qed

lemma mset_fst_sorted_donors: "mset (map fst (sort_key f (map (\<lambda>e. (e, c)) xs))) = mset xs"
  by (simp add: multiset.map_comp comp_def)

lemma balance_evening_Inr: "\<exists>b'. balance_evening total_days day b = Inr b'"
proof -
  let ?C = "g_counts (b_g b)"
  have 1: "\<exists>b'. move_surplus total_days day 2 k 0 (sort_key (\<lambda>x. - count_of ?C x 2) (b_e b)) b = Inr b'"
    for k
    by (rule move_surplus_Inr) simp
  have 2: "\<exists>b'. pull_donors total_days day k 0
      (sort_key (\<lambda>x. (\<not> is_shift_viable (g_shifts (b_g b)) (fst x) day (Some 2) total_days,
                       count_of ?C (fst x) 2)) (map (\<lambda>e. (e, 1)) (b_m b))) b = Inr b'" for k
    by (rule pull_donors_Inr) (simp add: multiset.map_comp comp_def)
  show ?thesis
    unfolding balance_evening_def Let_def using 1 2 by simp
qed

lemma balance_night_Inr: "\<exists>b'. balance_night total_days day n b = Inr b'"
proof -
  have "\<exists>b'. move_surplus total_days day 3 k 0
      (sort_key (\<lambda>x. - count_of (g_counts (b_g b)) x 3) (b_n b)) b = Inr b'" for k
    by (rule move_surplus_Inr) simp
  then show ?thesis
    unfolding balance_night_def by simp
qed

lemma balance_iteration_Inr: "\<exists>r. balance_iteration employee_names total_days day g = Inr r"
proof -
  let ?holders = "assigned_employees (g_shifts g) employee_names day"
  let ?b0 = "\<lparr>b_g = g, b_m = ?holders 1, b_e = ?holders 2, b_n = ?holders 3, b_changed = False\<rparr>"
  obtain b1 where 1: "balance_evening total_days day ?b0 = Inr b1"
    using balance_evening_Inr by blast
  obtain b2 where 2: "balance_night total_days day (int (length (?holders 3))) b1 = Inr b2"
    using balance_night_Inr by blast
  show ?thesis
    unfolding balance_iteration_def Let_def using 1 2 by simp
qed

lemma balance_day_not_Inl: "balance_day n employee_names total_days day g \<noteq> Inl e"
proof (induction n arbitrary: g)
  case 0
  then show ?case by simp
next
  case (Suc n)
  obtain g' ch where "balance_iteration employee_names total_days day g = Inr (g', ch)"
    using balance_iteration_Inr by (metis surj_pair)
  then show ?case using Suc by simp
qed

lemma recount_Inl: "recount employee_names total_days S = Inl e \<Longrightarrow> e = KeyError"
  unfolding recount_def
  apply (erule fold_err_Inl)
  apply (erule fold_err_Inl)
  apply (auto split: option.splits dest: add_count_cell_Inl)
  done

lemma phase4_Inl: "phase4 employee_names total_days g = Inl e \<Longrightarrow> e = KeyError"
  unfolding phase4_def
  by (auto split: sum.splits dest: recount_Inl fold_err_Inl [where P = "\<lambda>_. False"]
      simp: balance_day_not_Inl)

lemma phase46_Inl: "phase46 employee_names total_days g = Inl e \<Longrightarrow> e = KeyError"
  unfolding phase46_def
  apply (erule fold_err_Inl)
  apply (auto simp: phase46_emp_def Let_def split: if_splits list.splits sum.splits
      dest: add_count_cell_Inl)
  done

lemma run_phases_Inl: "run_phases employee_names total_days g = Inl e \<Longrightarrow> e = KeyError"
  unfolding run_phases_def
  by (auto split: sum.splits simp: phase2_not_Inl dest: phase3_Inl phase4_Inl phase46_Inl)

text \<open>
  C2. The generator fails with the roster error exactly when the roster has fewer than
  six entries: below six it returns that error without building any matrix, whatever
  \<open>total_days\<close> and the random draws are; from six on, it never returns that error,
  nor the other \<open>ValueError\<close> of the run (a failed \<open>list.remove\<close>).
\<close>

theorem generate_roster_check:
  "(length employee_names < 6 \<longrightarrow>
       generate_optimized_shifts employee_names total_days rs = Inl InsufficientRoster)
   \<and> (6 \<le> length employee_names \<longrightarrow>
       generate_optimized_shifts employee_names total_days rs \<noteq> Inl InsufficientRoster
       \<and> generate_optimized_shifts employee_names total_days rs \<noteq> Inl RemoveAbsent)"
  by (auto simp: generate_optimized_shifts_def split: sum.splits dest: run_phases_Inl)


theorem generate_roster_check_witness:
  "generate_optimized_shifts [''A'', ''B'', ''C'', ''D'', ''E''] 30 [] = Inl InsufficientRoster
   \<and> generate_optimized_shifts [''A'', ''B'', ''C'', ''D'', ''E'', ''F''] 30 []
       \<noteq> Inl InsufficientRoster
   \<and> generate_optimized_shifts [''A'', ''B'', ''C'', ''D'', ''E'', ''F''] 30 []
       \<noteq> Inl RemoveAbsent"
  using generate_roster_check [of "[''A'', ''B'', ''C'', ''D'', ''E'']" 30 "[]"]
    generate_roster_check [of "[''A'', ''B'', ''C'', ''D'', ''E'', ''F'']" 30 "[]"]
  by simp

section \<open>A generated schedule with Morning after Night\<close>

text \<open>
  C3. The run on the roster A..F over five days, in which \<open>random.choice\<close> gives the
  single Night of the last day to A and \<open>random.shuffle\<close> orders the employees
  E, D, A, B, C, F, ends with Night on the fourth day and Morning on the fifth day of
  employee D.
\<close>

theorem generate_morning_after_night:
  "generate_optimized_shifts [''A'', ''B'', ''C'', ''D'', ''E'', ''F''] 5 [0, 4, 3]
     = Inr [(''A'', [Some 3, Some 3, Some 0, Some 1, Some 3]),
            (''B'', [Some 2, Some 1, Some 1, Some 3, Some 0]),
            (''C'', [Some 3, Some 3, Some 0, Some 0, Some 1]),
            (''D'', [Some 1, Some 0, Some 2, Some 3, Some 1]),
            (''E'', [Some 0, Some 3, Some 3, Some 0, Some 2]),
            (''F'', [Some 3, Some 3, Some 0, Some 1, Some 2])]"
  by code_simp

end
